theory Spec2Isabelle
  imports Main
begin

section \<open>Strings as the merge action reads them\<close>

text \<open>
  The action is \<^verbatim>\<open>mergify_engine/actions/merge/action.py\<close>. Its strings are
  Python \<^verbatim>\<open>str\<close> values; here a string is a list of code points below 256,
  one \<^typ>\<open>char\<close> each. On that range Python's \<^verbatim>\<open>str.isspace\<close> (which
  both \<^verbatim>\<open>str.strip()\<close> and the regular expression class \<^verbatim>\<open>\s\<close>
  follow) holds of exactly twelve code points, and case-insensitive matching of an
  ASCII letter accepts exactly its two ASCII cases.
\<close>

definition isspace :: "char \<Rightarrow> bool" where
  "isspace c = (c \<in> set [CHR 0x09, CHR 0x0A, CHR 0x0B, CHR 0x0C, CHR 0x0D,
     CHR 0x1C, CHR 0x1D, CHR 0x1E, CHR 0x1F, CHR 0x20, CHR 0x85, CHR 0xA0])"

text \<open>\<^verbatim>\<open>s.strip()\<close>\<close>

definition strip :: "string \<Rightarrow> string" where
  "strip s = rev (dropWhile isspace (rev (dropWhile isspace s)))"

text \<open>\<^verbatim>\<open>s.split("\n")\<close>: the pieces between line feeds, never an empty list.\<close>

fun split_nl :: "string \<Rightarrow> string list" where
  "split_nl [] = [[]]"
| "split_nl (c # cs) =
     (if c = CHR 0x0A then [] # split_nl cs
      else (case split_nl cs of
              [] \<Rightarrow> [[c]]
            | l # ls \<Rightarrow> (c # l) # ls))"

text \<open>\<^verbatim>\<open>sep.join(xs)\<close> with the separator \<^verbatim>\<open>"\n"\<close>.\<close>

fun join_nl :: "string list \<Rightarrow> string" where
  "join_nl [] = []"
| "join_nl [l] = l"
| "join_nl (l # ls) = l @ CHR 0x0A # join_nl ls"

text \<open>\<^verbatim>\<open>s.startswith(p)\<close>, with the searched string second.\<close>

fun startswith :: "string \<Rightarrow> string \<Rightarrow> bool" where
  "startswith [] s = True"
| "startswith (p # ps) [] = False"
| "startswith (p # ps) (c # cs) = (p = c \<and> startswith ps cs)"

text \<open>\<^verbatim>\<open>sub in s\<close>\<close>

fun contains :: "string \<Rightarrow> string \<Rightarrow> bool" where
  "contains sub [] = (sub = [])"
| "contains sub (c # cs) = (startswith sub (c # cs) \<or> contains sub cs)"

text \<open>Lower case of an ASCII letter; every other code point is left alone.\<close>

definition ascii_lower :: "char \<Rightarrow> char" where
  "ascii_lower c =
     (case map_of (zip ''ABCDEFGHIJKLMNOPQRSTUVWXYZ'' ''abcdefghijklmnopqrstuvwxyz'') c of
        None \<Rightarrow> c
      | Some l \<Rightarrow> l)"

text \<open>\<^verbatim>\<open>str(n)\<close> for a non-negative integer, and for any integer.\<close>

definition digit_char :: "nat \<Rightarrow> char" where
  "digit_char d = ''0123456789'' ! d"

fun str_nat :: "nat \<Rightarrow> string" where
  "str_nat n = (if n < 10 then [digit_char n] else str_nat (n div 10) @ [digit_char (n mod 10)])"

definition str_int :: "int \<Rightarrow> string" where
  "str_int i = (if i < 0 then CHR ''-'' # str_nat (nat (- i)) else str_nat (nat i))"

section \<open>The two regular expressions\<close>

text \<open>
  \<^verbatim>\<open>MARKDOWN_TITLE_RE = re.compile(r"^#+ ", re.I)\<close>, used with \<^verbatim>\<open>match\<close>:
  one or more \<^verbatim>\<open>#\<close> at the start of the line, then a space. The run of
  \<^verbatim>\<open>#\<close> has to be the whole leading run, since the next character must be a
  space.
\<close>

definition hashes_then_space :: "string \<Rightarrow> string option" where
  "hashes_then_space line =
     (case line of
        [] \<Rightarrow> None
      | c # cs \<Rightarrow>
          if c = CHR ''#'' then
            (case dropWhile (\<lambda>x. x = CHR ''#'') cs of
               [] \<Rightarrow> None
             | d # ds \<Rightarrow> if d = CHR '' '' then Some ds else None)
          else None)"

definition MARKDOWN_TITLE_RE :: "string \<Rightarrow> bool" where
  "MARKDOWN_TITLE_RE line = (hashes_then_space line \<noteq> None)"

text \<open>
  \<^verbatim>\<open>MARKDOWN_COMMIT_MESSAGE_RE = re.compile(r"^#+ Commit Message ?:?\s*$", re.I)\<close>:
  after the \<^verbatim>\<open>#\<close> run and its space comes the phrase in any letter case, and
  the rest of the line is an optional space, an optional colon and white space up to
  the end. A line holds no line feed, so \<^verbatim>\<open>$\<close> is the end of the line.
\<close>

definition commit_message_tail :: "string \<Rightarrow> bool" where
  "commit_message_tail r =
     (list_all isspace r
      \<or> (case r of
            c # t \<Rightarrow> c = CHR '':'' \<and> list_all isspace t
          | [] \<Rightarrow> False)
      \<or> (case r of
            c # d # t \<Rightarrow> c = CHR '' '' \<and> d = CHR '':'' \<and> list_all isspace t
          | _ \<Rightarrow> False))"

definition MARKDOWN_COMMIT_MESSAGE_RE :: "string \<Rightarrow> bool" where
  "MARKDOWN_COMMIT_MESSAGE_RE line =
     (case hashes_then_space line of
        None \<Rightarrow> False
      | Some r \<Rightarrow>
          map ascii_lower (take 14 r) = ''commit message''
          \<and> commit_message_tail (drop 14 r))"

section \<open>Configuration, snapshot and outcomes\<close>

text \<open>
  The validated configuration of the action (\<^verbatim>\<open>MergeAction.validator\<close>).
  \<^verbatim>\<open>strict\<close> is \<^verbatim>\<open>False\<close>, \<^verbatim>\<open>True\<close> or the string
  \<^verbatim>\<open>"smart"\<close>; \<^verbatim>\<open>rebase_fallback\<close> may be \<^verbatim>\<open>None\<close>.
\<close>

datatype merge_method = Merge | Rebase | Squash

datatype strict_mode = Strict_False | Strict_True | Smart

datatype commit_message_mode = Default | Title_body

record config =
  config_method :: merge_method
  rebase_fallback :: "merge_method option"
  strict :: strict_mode
  strict_method :: merge_method
  commit_message :: commit_message_mode

definition validator :: "config \<Rightarrow> bool" where
  "validator cfg = (rebase_fallback cfg \<noteq> Some Rebase \<and> strict_method cfg \<noteq> Squash)"

text \<open>
  The key \<^verbatim>\<open>"method"\<close> is the field \<open>config_method\<close>. Truth value of
  \<^verbatim>\<open>self.config["strict"]\<close>: the non-empty string is true.
\<close>

definition strict_truthy :: "strict_mode \<Rightarrow> bool" where
  "strict_truthy s = (s \<noteq> Strict_False)"

text \<open>
  An outcome is the tuple \<^verbatim>\<open>(status, summary, detail)\<close>; the status is a
  conclusion or Python's \<^verbatim>\<open>None\<close>.
\<close>

datatype conclusion = Success | Failure | Action_required | Cancelled

type_synonym outcome = "conclusion option \<times> string \<times> string"

text \<open>
  What the action reads of \<^verbatim>\<open>ctxt\<close>: the fields of \<^verbatim>\<open>ctxt.pull\<close>, the
  title and body of \<^verbatim>\<open>ctxt.pull_request\<close>, the checks in the order of
  \<^verbatim>\<open>ctxt.checks.items()\<close> (a state is a string or \<^verbatim>\<open>None\<close>), and the
  two properties \<^verbatim>\<open>is_behind\<close> and \<^verbatim>\<open>pull_base_is_modifiable\<close>.
\<close>

record ctxt =
  pull_number :: nat
  pull_state :: string
  pull_merged :: bool
  pull_rebaseable :: bool
  pull_head_sha :: string
  pull_title :: string
  pull_body :: "string option"
  checks :: "(string \<times> string option) list"
  is_behind :: bool
  pull_base_is_modifiable :: bool

text \<open>
  A missing condition: its \<^verbatim>\<open>attribute_name\<close>, and the result of calling it
  with that attribute set to a check name, \<^verbatim>\<open>cond(**{cond.attribute_name: name})\<close>.
\<close>

record condition =
  attribute_name :: string
  matches :: "string \<Rightarrow> bool"

text \<open>The JSON body of the merge request.\<close>

record merge_data =
  json_commit_title :: "string option"
  json_commit_message :: "string option"
  json_sha :: string
  json_merge_method :: merge_method

section \<open>Collaborators and effects\<close>

text \<open>Any exception the action does not catch.\<close>

datatype exn = Uncaught string

text \<open>
  The exceptions that rendering a commit message raises. \<^verbatim>\<open>_merge\<close> catches
  three kinds: \<^verbatim>\<open>jinja2.exceptions.TemplateSyntaxError\<close> (message and line
  number), any other \<^verbatim>\<open>jinja2.exceptions.TemplateError\<close> (message), and
  \<^verbatim>\<open>context.PullRequestAttributeError\<close> (attribute name). Any other exception
  of the rendering is not caught and leaves \<^verbatim>\<open>_merge\<close>.
\<close>

datatype render_error =
  TemplateSyntaxError string int
| TemplateError string
| PullRequestAttributeError string
| Other_exception exn

text \<open>
  The answer of \<^verbatim>\<open>ctxt.client.put\<close>: success, an
  \<^verbatim>\<open>httpx.HTTPClientSideError\<close> with its status code and message, or another
  exception, which \<^verbatim>\<open>_merge\<close> lets through.
\<close>

datatype put_response =
  Put_ok
| HTTPClientSideError nat string
| Put_raises exn

text \<open>
  The code the action calls and does not define: the helpers
  \<^verbatim>\<open>merge_report\<close>, \<^verbatim>\<open>update_pull_base_branch\<close> and
  \<^verbatim>\<open>get_wait_for_ci_report\<close>, the attribute
  \<^verbatim>\<open>cancelled_check_report\<close> of the base class, the HTTP client, the refresh
  \<^verbatim>\<open>ctxt.update()\<close> (the refreshed snapshot, or an exception) and the template
  engine (\<^verbatim>\<open>env.from_string(s).render()\<close> in the namespace of the pull
  request). They are parameters of the model.
\<close>

record collaborators =
  merge_report :: "ctxt \<Rightarrow> strict_mode \<Rightarrow> outcome option"
  update_pull_base_branch :: "ctxt \<Rightarrow> merge_method \<Rightarrow> outcome"
  get_wait_for_ci_report :: "ctxt \<Rightarrow> outcome"
  cancelled_check_report :: outcome
  client_put :: "ctxt \<Rightarrow> merge_data \<Rightarrow> put_response"
  ctxt_refresh :: "ctxt \<Rightarrow> exn + ctxt"
  render :: "ctxt \<Rightarrow> string \<Rightarrow> render_error + string"

text \<open>The outward calls of a run, in the order they are made.\<close>

datatype call =
  Client_put nat merge_data
| Ctxt_update
| Queue_add_pull merge_method
| Queue_remove_pull
| Update_pull_base_branch merge_method

text \<open>
  The state a run works on: the current snapshot, the merge queue of the base branch
  (pull number and sync method, oldest first) and the calls made so far.
\<close>

record world =
  ctxt :: ctxt
  queue :: "(nat \<times> merge_method) list"
  calls :: "call list"

text \<open>
  Modelled from the spec: \<^verbatim>\<open>queue.add_pull\<close> and \<^verbatim>\<open>queue.remove_pull\<close>
  (module \<^verbatim>\<open>mergify_engine.actions.merge.queue\<close>) are not among the sources.
  The spec's queue is a FIFO per branch; enqueuing a pull request that is already
  queued updates its method, and dequeuing an absent one is a no-op.
\<close>

definition enqueue :: "nat \<Rightarrow> merge_method \<Rightarrow> (nat \<times> merge_method) list \<Rightarrow> (nat \<times> merge_method) list" where
  "enqueue n m q =
     (if n \<in> set (map fst q) then map (\<lambda>(k, v). if k = n then (k, m) else (k, v)) q
      else q @ [(n, m)])"

definition dequeue :: "nat \<Rightarrow> (nat \<times> merge_method) list \<Rightarrow> (nat \<times> merge_method) list" where
  "dequeue n q = filter (\<lambda>(k, v). k \<noteq> n) q"

text \<open>\<^verbatim>\<open>queue.add_pull(ctxt, method)\<close> and \<^verbatim>\<open>queue.remove_pull(ctxt)\<close> as calls.\<close>

definition add_pull :: "world \<Rightarrow> merge_method \<Rightarrow> world" where
  "add_pull w m =
     w\<lparr>queue := enqueue (pull_number (ctxt w)) m (queue w),
       calls := calls w @ [Queue_add_pull m]\<rparr>"

definition remove_pull :: "world \<Rightarrow> world" where
  "remove_pull w =
     w\<lparr>queue := dequeue (pull_number (ctxt w)) (queue w),
       calls := calls w @ [Queue_remove_pull]\<rparr>"

section \<open>The merge action\<close>

subsection \<open>\<^verbatim>\<open>cancel\<close> and \<^verbatim>\<open>_required_statuses_in_progress\<close>\<close>

text \<open>
  The first loop of \<^verbatim>\<open>_required_statuses_in_progress\<close>: conditions on
  \<^verbatim>\<open>status-\<close> attributes are appended to \<^verbatim>\<open>need_look_at_checks\<close>; the
  first other condition makes the function return \<^verbatim>\<open>False\<close>, here \<open>None\<close>.
\<close>

fun need_look_at_checks :: "condition list \<Rightarrow> condition list \<Rightarrow> condition list option" where
  "need_look_at_checks acc [] = Some acc"
| "need_look_at_checks acc (condition # rest) =
     (if startswith ''status-'' (attribute_name condition)
      then need_look_at_checks (acc @ [condition]) rest
      else None)"

text \<open>
  The list comprehension: for each check in turn, and for each kept condition in turn,
  the state of the check when the condition accepts the check's name.
\<close>

definition matched_states :: "(string \<times> string option) list \<Rightarrow> condition list \<Rightarrow> string option list" where
  "matched_states cks need =
     concat (map (\<lambda>(name, state).
       concat (map (\<lambda>cond. if matches cond name then [state] else []) need)) cks)"

definition required_statuses_in_progress :: "ctxt \<Rightarrow> condition list \<Rightarrow> bool" where
  "required_statuses_in_progress c missing_conditions =
     (if pull_state c = ''closed'' then False
      else
        (case need_look_at_checks [] missing_conditions of
           None \<Rightarrow> False
         | Some need \<Rightarrow>
             if need \<noteq> [] then
               (if checks c = [] then True
                else
                  (let states = matched_states (checks c) need in
                   if states = [] then True
                   else list_ex (\<lambda>state. state = Some ''pending'' \<or> state = None) states))
             else False))"

definition cancel :: "collaborators \<Rightarrow> config \<Rightarrow> world \<Rightarrow> condition list \<Rightarrow> outcome \<times> world" where
  "cancel ext cfg w missing_conditions =
     (if strict_truthy (strict cfg) \<and> required_statuses_in_progress (ctxt w) missing_conditions
      then (get_wait_for_ci_report ext (ctxt w), w)
      else (cancelled_check_report ext, if strict cfg = Smart then remove_pull w else w))"

subsection \<open>\<^verbatim>\<open>_sync_with_base_branch\<close>\<close>

definition sync_with_base_branch :: "collaborators \<Rightarrow> config \<Rightarrow> world \<Rightarrow> outcome \<times> world" where
  "sync_with_base_branch ext cfg w =
     (if \<not> pull_base_is_modifiable (ctxt w) then
        ((Some Failure,
          ''Pull request can't be updated with latest ''
            @ ''base branch changes, owner doesn't allow ''
            @ ''modification'',
          []), w)
      else if strict cfg = Smart then
        ((None,
          ''Base branch will be updated soon'',
          ''The pull request base branch will '' @ ''be updated soon, and then merged.''),
         add_pull w (strict_method cfg))
      else
        (update_pull_base_branch ext (ctxt w) (strict_method cfg),
         w\<lparr>calls := calls w @ [Update_pull_base_branch (strict_method cfg)]\<rparr>))"

subsection \<open>\<^verbatim>\<open>_get_commit_message\<close>\<close>

text \<open>
  The loop over the lines of the body, with its flag \<^verbatim>\<open>found\<close> and the list
  \<^verbatim>\<open>message_lines\<close>; the second branch is the \<^verbatim>\<open>break\<close>.
\<close>

fun scan_body :: "bool \<Rightarrow> string list \<Rightarrow> string list \<Rightarrow> bool \<times> string list" where
  "scan_body found message_lines [] = (found, message_lines)"
| "scan_body found message_lines (line # rest) =
     (if MARKDOWN_COMMIT_MESSAGE_RE line then scan_body True message_lines rest
      else if found \<and> MARKDOWN_TITLE_RE line then (found, message_lines)
      else if found then scan_body found (message_lines @ [line]) rest
      else scan_body found message_lines rest)"

text \<open>\<^verbatim>\<open>lambda x: not x.strip()\<close>\<close>

definition blank :: "string \<Rightarrow> bool" where
  "blank x = (strip x = [])"

text \<open>
  The result is \<^verbatim>\<open>None\<close> or the pair of title and message; in the mode
  \<^verbatim>\<open>title+body\<close> the second component is the body as it is, which may be
  \<^verbatim>\<open>None\<close>. The title is rendered before the message, so its error comes first.
\<close>

definition get_commit_message ::
  "(string \<Rightarrow> render_error + string) \<Rightarrow> ctxt \<Rightarrow> commit_message_mode
     \<Rightarrow> render_error + (string \<times> string option) option" where
  "get_commit_message rnd pull_request mode =
     (if mode = Title_body then Inr (Some (pull_title pull_request, pull_body pull_request))
      else
        (case pull_body pull_request of
           None \<Rightarrow> Inr None
         | Some b \<Rightarrow>
             if b = [] then Inr None
             else
               (let (found, message_lines) = scan_body False [] (split_nl b);
                    message_lines = dropWhile blank message_lines
                in
                if found \<and> message_lines \<noteq> [] then
                  (case message_lines of
                     [] \<Rightarrow> Inr None
                   | title # message_lines \<Rightarrow>
                       (let message_lines = dropWhile blank message_lines in
                        (case rnd (strip title) of
                           Inl e \<Rightarrow> Inl e
                         | Inr t \<Rightarrow>
                             (case rnd (join_nl (map strip message_lines)) of
                                Inl e \<Rightarrow> Inl e
                              | Inr m \<Rightarrow> Inr (Some (t, Some m))))))
                else Inr None)))"

subsection \<open>\<^verbatim>\<open>_handle_merge_error\<close>\<close>

definition handle_merge_error ::
  "collaborators \<Rightarrow> config \<Rightarrow> nat \<Rightarrow> string \<Rightarrow> world \<Rightarrow> outcome \<times> world" where
  "handle_merge_error ext cfg status_code message w =
     (if contains ''Head branch was modified'' message then
        ((Some Cancelled,
          ''Head branch was modified in the meantime'',
          ''The head branch was modified, the merge action have been cancelled.''), w)
      else if contains ''Base branch was modified'' message then
        sync_with_base_branch ext cfg w
      else if status_code = 405 then
        ((None,
          ''Waiting for the Branch Protection to be validated'',
          ''Branch Protection is enabled and is preventing Mergify ''
            @ ''to merge the pull request. Mergify will merge when ''
            @ ''branch protection settings validate the pull request. ''
            @ ''(detail: '' @ message @ '')''), w)
      else
        ((Some Failure,
          ''Mergify failed to merge the pull request'',
          ''GitHub error message: `'' @ message @ ''`''), w))"

subsection \<open>\<^verbatim>\<open>_merge\<close>\<close>

text \<open>
  The first statement of \<^verbatim>\<open>_merge\<close> picks the method: the configured one
  unless it is \<^verbatim>\<open>rebase\<close> and the pull request is not rebaseable, then the
  fallback when it is set; \<open>None\<close> is the branch that returns at once.
\<close>

definition merge_method_for :: "config \<Rightarrow> ctxt \<Rightarrow> merge_method option" where
  "merge_method_for cfg c =
     (if config_method cfg \<noteq> Rebase \<or> pull_rebaseable c then Some (config_method cfg)
      else if rebase_fallback cfg \<noteq> None then rebase_fallback cfg
      else None)"

text \<open>
  The body of the request: title and message are set only when they are true values
  (neither \<^verbatim>\<open>None\<close> nor empty).
\<close>

definition build_data ::
  "(string \<times> string option) option \<Rightarrow> ctxt \<Rightarrow> merge_method \<Rightarrow> merge_data" where
  "build_data commit_title_and_message c m =
     \<lparr>json_commit_title =
        (case commit_title_and_message of
           None \<Rightarrow> None
         | Some (title, message) \<Rightarrow> if title \<noteq> [] then Some title else None),
      json_commit_message =
        (case commit_title_and_message of
           None \<Rightarrow> None
         | Some (title, message) \<Rightarrow>
             (case message of
                None \<Rightarrow> None
              | Some msg \<Rightarrow> if msg \<noteq> [] then Some msg else None)),
      json_sha = pull_head_sha c,
      json_merge_method = m\<rparr>"

text \<open>
  \<^verbatim>\<open>ctxt.update()\<close>: the snapshot is replaced by the refreshed one and the call
  is recorded, or the exception of the refresh is raised.
\<close>

definition update :: "collaborators \<Rightarrow> world \<Rightarrow> exn + world" where
  "update ext w =
     (case ctxt_refresh ext (ctxt w) of
        Inl x \<Rightarrow> Inl x
      | Inr c \<Rightarrow> Inr (w\<lparr>ctxt := c, calls := calls w @ [Ctxt_update]\<rparr>))"

text \<open>
  The result of \<^verbatim>\<open>_merge\<close> is an outcome, \<^verbatim>\<open>None\<close> when the final
  \<^verbatim>\<open>merge_report\<close> gives none, or an exception that leaves the function.
\<close>

definition merge :: "collaborators \<Rightarrow> config \<Rightarrow> world \<Rightarrow> (exn + outcome option) \<times> world" where
  "merge ext cfg w =
     (case merge_method_for cfg (ctxt w) of
        None \<Rightarrow>
          (Inr (Some (Some Action_required,
             ''Automatic rebasing is not possible, manual intervention required'',
             [])), w)
      | Some m \<Rightarrow>
          (case get_commit_message (render ext (ctxt w)) (ctxt w) (commit_message cfg) of
             Inl (TemplateSyntaxError tse_message tse_lineno) \<Rightarrow>
               (Inr (Some (Some Action_required,
                  ''Invalid commit message'',
                  ''There is an error in your commit message: '' @ tse_message
                    @ '' at line '' @ str_int tse_lineno)), w)
           | Inl (TemplateError te_message) \<Rightarrow>
               (Inr (Some (Some Action_required,
                  ''Invalid commit message'',
                  ''There is an error in your commit message: '' @ te_message)), w)
           | Inl (PullRequestAttributeError e_name) \<Rightarrow>
               (Inr (Some (Some Action_required,
                  ''Invalid commit message'',
                  ''There is an error in your commit message, the following variable is unknown: ''
                    @ e_name)), w)
           | Inl (Other_exception x) \<Rightarrow> (Inl x, w)
           | Inr commit_title_and_message \<Rightarrow>
               (let data = build_data commit_title_and_message (ctxt w) m;
                    w1 = w\<lparr>calls := calls w @ [Client_put (pull_number (ctxt w)) data]\<rparr>
                in
                (case client_put ext (ctxt w) data of
                   Put_raises x \<Rightarrow> (Inl x, w1)
                 | HTTPClientSideError status_code message \<Rightarrow>
                     (case update ext w1 of
                        Inl x \<Rightarrow> (Inl x, w1)
                      | Inr w2 \<Rightarrow>
                          if pull_merged (ctxt w2)
                          then (Inr (merge_report ext (ctxt w2) (strict cfg)), w2)
                          else
                            (let (output, w3) = handle_merge_error ext cfg status_code message w2
                             in (Inr (Some output), w3)))
                 | Put_ok \<Rightarrow>
                     (case update ext w1 of
                        Inl x \<Rightarrow> (Inl x, w1)
                      | Inr w2 \<Rightarrow> (Inr (merge_report ext (ctxt w2) (strict cfg)), w2))))))"

subsection \<open>\<^verbatim>\<open>run\<close>\<close>

text \<open>
  \<^verbatim>\<open>try: return self._merge(ctxt) finally: ...\<close>: the queue removal runs on a
  returned outcome and on an exception alike, and the result of \<^verbatim>\<open>_merge\<close>
  is passed on unchanged.
\<close>

definition run ::
  "collaborators \<Rightarrow> config \<Rightarrow> world \<Rightarrow> condition list \<Rightarrow> (exn + outcome option) \<times> world" where
  "run ext cfg w missing_conditions =
     (case merge_report ext (ctxt w) (strict cfg) of
        Some output \<Rightarrow>
          (Inr (Some output), if strict cfg = Smart then remove_pull w else w)
      | None \<Rightarrow>
          if strict_truthy (strict cfg) \<and> is_behind (ctxt w) then
            (let (output, w') = sync_with_base_branch ext cfg w in (Inr (Some output), w'))
          else
            (let (result, w') = merge ext cfg w
             in (result, if strict cfg = Smart then remove_pull w' else w')))"

section \<open>Example inputs\<close>

text \<open>
  A pull request whose body carries a commit message section, a configuration with the
  smart queue, and collaborators that answer as the remote side may: the merge call
  succeeds and the refreshed snapshot shows the pull request merged. The reports of
  the helpers are sample texts. The concrete statements below vary these values field
  by field.
\<close>

definition example_body :: string where
  "example_body =
     ''intro\<newline># Commit Message\<newline>Fix bug\<newline>\<newline>Details here\<newline># Another Heading\<newline>ignored''"

definition example_ctxt :: ctxt where
  "example_ctxt =
     \<lparr>pull_number = 7, pull_state = ''open'', pull_merged = False, pull_rebaseable = False,
      pull_head_sha = ''0f3c9a'', pull_title = ''Fix the parser'',
      pull_body = Some example_body,
      checks = [(''ci/test'', Some ''pending''), (''ci/lint'', Some ''success'')],
      is_behind = False, pull_base_is_modifiable = True\<rparr>"

definition example_config :: config where
  "example_config =
     \<lparr>config_method = Merge, rebase_fallback = Some Merge, strict = Smart,
      strict_method = Merge, commit_message = Default\<rparr>"

definition example_collaborators :: collaborators where
  "example_collaborators =
     \<lparr>merge_report =
        (\<lambda>c s. if pull_merged c
               then Some (Some Success, ''The pull request has been merged automatically'', [])
               else None),
      update_pull_base_branch = (\<lambda>c m. (None, ''Base branch updates done'', [])),
      get_wait_for_ci_report = (\<lambda>c. (None, ''Waiting for status checks'', [])),
      cancelled_check_report =
        (Some Cancelled, ''The rule doesn't match anymore'', ''This action has been cancelled.''),
      client_put = (\<lambda>c d. Put_ok),
      ctxt_refresh = (\<lambda>c. Inr (c\<lparr>pull_merged := True\<rparr>)),
      render = (\<lambda>c s. Inr s)\<rparr>"

definition example_world :: world where
  "example_world = \<lparr>ctxt = example_ctxt, queue = [(3, Merge), (7, Rebase)], calls = []\<rparr>"

text \<open>The remote side refuses the merge and the refresh shows the pull request still open.\<close>

definition refusing_collaborators :: "nat \<Rightarrow> string \<Rightarrow> collaborators" where
  "refusing_collaborators status_code message =
     example_collaborators
       \<lparr>client_put := (\<lambda>c d. HTTPClientSideError status_code message),
        ctxt_refresh := (\<lambda>c. Inr c)\<rparr>"

text \<open>The request body the example pull request is merged with.\<close>

definition example_data :: merge_data where
  "example_data =
     \<lparr>json_commit_title = Some ''Fix bug'', json_commit_message = Some ''Details here'',
      json_sha = ''0f3c9a'', json_merge_method = Merge\<rparr>"

text \<open>Two missing conditions: a required status check and a label.\<close>

definition status_condition :: condition where
  "status_condition =
     \<lparr>attribute_name = ''status-success'', matches = (\<lambda>name. name = ''ci/test'')\<rparr>"

definition label_condition :: condition where
  "label_condition = \<lparr>attribute_name = ''label'', matches = (\<lambda>name. name = ''ready'')\<rparr>"

section \<open>Auxiliary facts\<close>

lemmas regex_defs =
  MARKDOWN_COMMIT_MESSAGE_RE_def MARKDOWN_TITLE_RE_def hashes_then_space_def
  commit_message_tail_def ascii_lower_def isspace_def blank_def strip_def

lemmas example_defs =
  example_ctxt_def example_config_def example_collaborators_def example_world_def
  refusing_collaborators_def example_data_def

lemma split_nl_not_Nil: "split_nl s \<noteq> []"
  by (induction s) (auto split: list.splits)

lemma scan_body_no_heading:
  "\<forall>line\<in>set ls. \<not> MARKDOWN_COMMIT_MESSAGE_RE line \<Longrightarrow> scan_body False acc ls = (False, acc)"
  by (induction ls) auto

lemma dropWhile_all: "list_all P xs \<Longrightarrow> dropWhile P xs = []"
  by (induction xs) auto

lemma example_scan_body:
  "scan_body False [] (split_nl example_body) = (True, [''Fix bug'', [], ''Details here''])"
  by (simp add: example_body_def regex_defs)

lemma example_get_commit_message:
  assumes "pull_body pull_request = Some example_body"
    and "rnd ''Fix bug'' = Inr ''Fix bug''"
    and "rnd ''Details here'' = Inr ''Details here''"
  shows "get_commit_message rnd pull_request Default
           = Inr (Some (''Fix bug'', Some ''Details here''))"
proof -
  have ne: "example_body \<noteq> []"
    by (simp add: example_body_def)
  show ?thesis
    unfolding get_commit_message_def
    using assms ne by (simp add: example_scan_body blank_def strip_def isspace_def)
qed

text \<open>
  Where \<^verbatim>\<open>_get_commit_message\<close> renders: in the default mode, for a body whose
  section was found and keeps a line that is not blank. Its result is then the pair of
  the two renderings, or the first error among them.
\<close>

lemma get_commit_message_renders:
  assumes "pull_body pull_request = Some b" and "b \<noteq> []"
    and "scan_body False [] (split_nl b) = (True, message_lines)"
    and "dropWhile blank message_lines = title # rest"
  shows "get_commit_message rnd pull_request Default =
           (case rnd (strip title) of
              Inl e \<Rightarrow> Inl e
            | Inr t \<Rightarrow>
                (case rnd (join_nl (map strip (dropWhile blank rest))) of
                   Inl e \<Rightarrow> Inl e
                 | Inr m \<Rightarrow> Inr (Some (t, Some m))))"
proof -
  have "dropWhile blank message_lines \<noteq> []"
    using assms(4) by simp
  then show ?thesis
    using assms by (simp add: get_commit_message_def del: dropWhile_eq_Nil_conv)
qed

text \<open>An error of \<^verbatim>\<open>_get_commit_message\<close> is an error of a rendering.\<close>

lemma get_commit_message_error_is_rendered:
  assumes "get_commit_message rnd pull_request mode = Inl e"
  shows "\<exists>template. rnd template = Inl e"
  using assms
  by (auto simp: get_commit_message_def Let_def
      split: if_splits option.splits prod.splits list.splits sum.splits)

lemma dequeue_absent: "n \<notin> fst ` set (dequeue n q)"
  by (auto simp: dequeue_def)

lemma remove_pull_calls: "calls (remove_pull w) = calls w @ [Queue_remove_pull]"
  by (simp add: remove_pull_def)

lemma remove_pull_absent:
  "pull_number (ctxt (remove_pull w)) \<notin> fst ` set (queue (remove_pull w))"
  by (simp add: remove_pull_def dequeue_absent)

lemma need_look_at_checks_all:
  "need_look_at_checks acc cs =
     (if list_all (\<lambda>c. startswith ''status-'' (attribute_name c)) cs then Some (acc @ cs)
      else None)"
  by (induction cs arbitrary: acc) auto

lemma list_ex_of_all: "xs \<noteq> [] \<Longrightarrow> \<forall>x\<in>set xs. P x \<Longrightarrow> list_ex P xs"
  by (cases xs) auto

lemma sync_with_base_branch_calls:
  "\<exists>suffix. calls (snd (sync_with_base_branch ext cfg w)) = calls w @ suffix
      \<and> (\<forall>n d. Client_put n d \<notin> set suffix)"
  by (simp add: sync_with_base_branch_def add_pull_def)

lemma handle_merge_error_calls:
  "\<exists>suffix. calls (snd (handle_merge_error ext cfg status_code message w)) = calls w @ suffix
      \<and> (\<forall>n d. Client_put n d \<notin> set suffix)"
  using sync_with_base_branch_calls [of ext cfg w] by (simp add: handle_merge_error_def)

text \<open>
  Every merge request a merge attempt sends carries the method picked at its start.
\<close>

lemma merge_calls:
  assumes "merge_method_for cfg (ctxt w) = Some m"
  shows "\<exists>suffix. calls (snd (merge ext cfg w)) = calls w @ suffix
      \<and> (\<forall>n d. Client_put n d \<in> set suffix \<longrightarrow> json_merge_method d = m)"
proof (cases "get_commit_message (render ext (ctxt w)) (ctxt w) (commit_message cfg)")
  case (Inl e)
  then show ?thesis
    using assms by (cases e) (simp_all add: merge_def)
next
  case (Inr ctm)
  define data where "data = build_data ctm (ctxt w) m"
  define w1 where "w1 = w\<lparr>calls := calls w @ [Client_put (pull_number (ctxt w)) data]\<rparr>"
  have jm: "json_merge_method data = m"
    by (simp add: data_def build_data_def)
  have c1: "calls w1 = calls w @ [Client_put (pull_number (ctxt w)) data]"
    by (simp add: w1_def)
  show ?thesis
  proof (cases "client_put ext (ctxt w) data")
    case Put_ok
    then show ?thesis
      using assms Inr jm
      by (cases "ctxt_refresh ext (ctxt w)") (auto simp: merge_def update_def data_def Let_def)
  next
    case (HTTPClientSideError status_code message)
    show ?thesis
    proof (cases "ctxt_refresh ext (ctxt w)")
      case (Inl x)
      then show ?thesis
        using assms Inr jm HTTPClientSideError
        by (auto simp: merge_def update_def data_def Let_def)
    next
      case r: (Inr c')
      define w2 where "w2 = w1\<lparr>ctxt := c', calls := calls w1 @ [Ctxt_update]\<rparr>"
      have u: "update ext w1 = Inr w2"
        using r by (simp add: update_def w1_def w2_def)
      obtain suffix where s:
        "calls (snd (handle_merge_error ext cfg status_code message w2)) = calls w2 @ suffix"
        "\<forall>n d. Client_put n d \<notin> set suffix"
        using handle_merge_error_calls [of ext cfg status_code message w2] by blast
      have m: "merge ext cfg w =
        (if pull_merged (ctxt w2) then (Inr (merge_report ext (ctxt w2) (strict cfg)), w2)
         else (Inr (Some (fst (handle_merge_error ext cfg status_code message w2))),
               snd (handle_merge_error ext cfg status_code message w2)))"
        using assms Inr HTTPClientSideError u
        by (simp add: merge_def data_def [symmetric] w1_def [symmetric] Let_def split: prod.splits)
      have c2: "calls w2 = calls w @ [Client_put (pull_number (ctxt w)) data, Ctxt_update]"
        by (simp add: w2_def c1)
      show ?thesis
        using s jm by (auto simp: m c2)
    qed
  next
    case (Put_raises x)
    then show ?thesis
      using assms Inr jm
      by (auto simp: merge_def data_def Let_def)
  qed
qed

text \<open>The example pull request as the merge attempt sees it.\<close>

lemma example_commit_message:
  "get_commit_message (render example_collaborators c) example_ctxt Default
     = Inr (Some (''Fix bug'', Some ''Details here''))"
  by (rule example_get_commit_message) (simp_all add: example_defs)

lemma example_build_data:
  "build_data (Some (''Fix bug'', Some ''Details here'')) example_ctxt Merge = example_data"
  by (simp add: build_data_def example_defs)

section \<open>The smart queue holds no completed run\<close>

text \<open>
  C1. With \<^verbatim>\<open>strict == "smart"\<close>, whenever \<^verbatim>\<open>run\<close> returns an outcome from the
  already-merged report path (\<^verbatim>\<open>merge_report\<close> gave a report) or from the merge
  attempt (no report, and the pull request is not behind), its last outward call is
  \<^verbatim>\<open>queue.remove_pull(ctxt)\<close> and the queue holds no entry for the pull request of
  that \<^verbatim>\<open>ctxt\<close>. This covers an attempt whose error handler re-entered the sync path
  and enqueued the pull request: the removal comes after it.
\<close>

theorem run_smart_removes_queue_entry:
  assumes "strict cfg = Smart"
    and "merge_report ext (ctxt w) (strict cfg) \<noteq> None \<or> \<not> is_behind (ctxt w)"
    and "run ext cfg w missing_conditions = (Inr output, w')"
  shows "calls w' \<noteq> [] \<and> last (calls w') = Queue_remove_pull
         \<and> pull_number (ctxt w') \<notin> fst ` set (queue w')"
proof -
  have "\<exists>w0. w' = remove_pull w0"
    using assms
    by (auto simp: run_def strict_truthy_def split: option.splits prod.splits)
  then obtain w0 where "w' = remove_pull w0" ..
  then show ?thesis
    by (simp add: remove_pull_calls remove_pull_absent)
qed

theorem run_smart_removes_queue_entry_witness:
  "run (refusing_collaborators 405 ''Base branch was modified. Review and try the merge again.'')
       example_config example_world []
     = (Inr (Some (None, ''Base branch will be updated soon'',
                   ''The pull request base branch will be updated soon, and then merged.'')),
        \<lparr>ctxt = example_ctxt, queue = [(3, Merge)],
         calls = [Client_put 7 example_data, Ctxt_update, Queue_add_pull Merge,
                  Queue_remove_pull]\<rparr>)
   \<and> last [Client_put 7 example_data, Ctxt_update, Queue_add_pull Merge, Queue_remove_pull]
       = Queue_remove_pull
   \<and> (7::nat) \<notin> fst ` set [(3::nat, Merge)]"
proof -
  let ?ext = "refusing_collaborators 405 ''Base branch was modified. Review and try the merge again.''"
  have smart: "strict example_config = Smart"
    by (simp add: example_defs)
  have path: "merge_report ?ext (ctxt example_world) (strict example_config) \<noteq> None
                \<or> \<not> is_behind (ctxt example_world)"
    by (simp add: example_defs)
  have cm: "get_commit_message (render ?ext example_ctxt) example_ctxt Default
              = Inr (Some (''Fix bug'', Some ''Details here''))"
    by (rule example_get_commit_message) (simp_all add: example_defs)
  have r: "run ?ext example_config example_world []
     = (Inr (Some (None, ''Base branch will be updated soon'',
                   ''The pull request base branch will be updated soon, and then merged.'')),
        \<lparr>ctxt = example_ctxt, queue = [(3, Merge)],
         calls = [Client_put 7 example_data, Ctxt_update, Queue_add_pull Merge,
                  Queue_remove_pull]\<rparr>)"
    using cm
    by (simp add: run_def merge_def merge_method_for_def update_def handle_merge_error_def
        sync_with_base_branch_def add_pull_def remove_pull_def enqueue_def dequeue_def
        strict_truthy_def build_data_def example_defs)
  from run_smart_removes_queue_entry [OF smart path r] show ?thesis
    using r by simp
qed

section \<open>Classification of a refused merge\<close>

text \<open>
  C2, as amended. \<^verbatim>\<open>_handle_merge_error\<close> classifies a client-side failure by
  the first test that holds, in this order. A message containing
  \<^verbatim>\<open>Head branch was modified\<close> gives the status \<^verbatim>\<open>cancelled\<close>. Otherwise a
  message containing \<^verbatim>\<open>Base branch was modified\<close> re-enters
  \<^verbatim>\<open>_sync_with_base_branch\<close> and returns its outcome: the status \<^verbatim>\<open>failure\<close>
  when the base branch may not be modified; else, under \<^verbatim>\<open>strict == "smart"\<close>, the
  status \<^verbatim>\<open>None\<close> with the summary that the base branch will be updated soon, after
  \<^verbatim>\<open>queue.add_pull\<close>; else the outcome of \<^verbatim>\<open>update_pull_base_branch\<close>.
  Otherwise the status code 405 gives the status \<^verbatim>\<open>None\<close> with the summary that
  the branch protection is awaited. Any other error gives the status \<^verbatim>\<open>failure\<close>
  whose detail is the remote message between back quotes after
  \<^verbatim>\<open>GitHub error message: \<close>.
\<close>

theorem handle_merge_error_classification:
  "(contains ''Head branch was modified'' message \<longrightarrow>
      handle_merge_error ext cfg status_code message w =
        ((Some Cancelled, ''Head branch was modified in the meantime'',
          ''The head branch was modified, the merge action have been cancelled.''), w))
   \<and> (\<not> contains ''Head branch was modified'' message
        \<and> contains ''Base branch was modified'' message \<longrightarrow>
      handle_merge_error ext cfg status_code message w = sync_with_base_branch ext cfg w
      \<and> (\<not> pull_base_is_modifiable (ctxt w) \<longrightarrow>
           fst (handle_merge_error ext cfg status_code message w) =
             (Some Failure,
              ''Pull request can't be updated with latest base branch changes, ''
                @ ''owner doesn't allow modification'', []))
      \<and> (pull_base_is_modifiable (ctxt w) \<and> strict cfg = Smart \<longrightarrow>
           handle_merge_error ext cfg status_code message w =
             ((None, ''Base branch will be updated soon'',
               ''The pull request base branch will be updated soon, and then merged.''),
              add_pull w (strict_method cfg)))
      \<and> (pull_base_is_modifiable (ctxt w) \<and> strict cfg \<noteq> Smart \<longrightarrow>
           handle_merge_error ext cfg status_code message w =
             (update_pull_base_branch ext (ctxt w) (strict_method cfg),
              w\<lparr>calls := calls w @ [Update_pull_base_branch (strict_method cfg)]\<rparr>)))
   \<and> (\<not> contains ''Head branch was modified'' message
        \<and> \<not> contains ''Base branch was modified'' message \<and> status_code = 405 \<longrightarrow>
      handle_merge_error ext cfg status_code message w =
        ((None, ''Waiting for the Branch Protection to be validated'',
          ''Branch Protection is enabled and is preventing Mergify to merge the pull request. ''
            @ ''Mergify will merge when branch protection settings validate the pull request. ''
            @ ''(detail: '' @ message @ '')''), w))
   \<and> (\<not> contains ''Head branch was modified'' message
        \<and> \<not> contains ''Base branch was modified'' message \<and> status_code \<noteq> 405 \<longrightarrow>
      handle_merge_error ext cfg status_code message w =
        ((Some Failure, ''Mergify failed to merge the pull request'',
          ''GitHub error message: `'' @ message @ ''`''), w))"
  by (simp add: handle_merge_error_def sync_with_base_branch_def)

theorem handle_merge_error_classification_witness:
  "handle_merge_error example_collaborators example_config 409
       ''Head branch was modified. Review and try the merge again.'' example_world
     = ((Some Cancelled, ''Head branch was modified in the meantime'',
         ''The head branch was modified, the merge action have been cancelled.''), example_world)
   \<and> handle_merge_error example_collaborators example_config 405
       ''Base branch was modified. Review and try the merge again.'' example_world
     = ((None, ''Base branch will be updated soon'',
         ''The pull request base branch will be updated soon, and then merged.''),
        \<lparr>ctxt = example_ctxt, queue = [(3, Merge), (7, Merge)], calls = [Queue_add_pull Merge]\<rparr>)
   \<and> handle_merge_error example_collaborators (example_config\<lparr>strict := Strict_True\<rparr>) 405
       ''Base branch was modified. Review and try the merge again.'' example_world
     = ((None, ''Base branch updates done'', []),
        \<lparr>ctxt = example_ctxt, queue = [(3, Merge), (7, Rebase)],
         calls = [Update_pull_base_branch Merge]\<rparr>)
   \<and> fst (handle_merge_error example_collaborators example_config 405
       ''Base branch was modified. Review and try the merge again.''
       (example_world\<lparr>ctxt := example_ctxt\<lparr>pull_base_is_modifiable := False\<rparr>\<rparr>))
     = (Some Failure,
        ''Pull request can't be updated with latest base branch changes, owner doesn't allow modification'',
        [])
   \<and> handle_merge_error example_collaborators example_config 405
       ''Required status check is expected.'' example_world
     = ((None, ''Waiting for the Branch Protection to be validated'',
         ''Branch Protection is enabled and is preventing Mergify to merge the pull request. ''
           @ ''Mergify will merge when branch protection settings validate the pull request. ''
           @ ''(detail: Required status check is expected.)''), example_world)
   \<and> handle_merge_error example_collaborators example_config 409
       ''Merge conflict'' example_world
     = ((Some Failure, ''Mergify failed to merge the pull request'',
         ''GitHub error message: `Merge conflict`''), example_world)"
proof -
  let ?base = "''Base branch was modified. Review and try the merge again.''"
  let ?locked = "example_world\<lparr>ctxt := example_ctxt\<lparr>pull_base_is_modifiable := False\<rparr>\<rparr>"
  have h: "contains ''Head branch was modified''
             ''Head branch was modified. Review and try the merge again.''"
    by simp
  have b: "\<not> contains ''Head branch was modified'' ?base
           \<and> contains ''Base branch was modified'' ?base"
    by simp
  have p: "\<not> contains ''Head branch was modified'' ''Required status check is expected.''
           \<and> \<not> contains ''Base branch was modified'' ''Required status check is expected.''
           \<and> (405::nat) = 405"
    by simp
  have f: "\<not> contains ''Head branch was modified'' ''Merge conflict''
           \<and> \<not> contains ''Base branch was modified'' ''Merge conflict''
           \<and> (409::nat) \<noteq> 405"
    by simp
  have m: "pull_base_is_modifiable (ctxt example_world) \<and> strict example_config = Smart"
          "pull_base_is_modifiable (ctxt example_world)
             \<and> strict (example_config\<lparr>strict := Strict_True\<rparr>) \<noteq> Smart"
          "\<not> pull_base_is_modifiable (ctxt ?locked)"
    by (simp_all add: example_defs)
  have one: "handle_merge_error example_collaborators example_config 409
       ''Head branch was modified. Review and try the merge again.'' example_world
     = ((Some Cancelled, ''Head branch was modified in the meantime'',
         ''The head branch was modified, the merge action have been cancelled.''), example_world)"
    using h
      handle_merge_error_classification
        [where message = "''Head branch was modified. Review and try the merge again.''"
           and status_code = 409 and ext = example_collaborators and cfg = example_config
           and w = example_world]
    by blast
  have two: "handle_merge_error example_collaborators example_config 405 ?base example_world
     = ((None, ''Base branch will be updated soon'',
         ''The pull request base branch will be updated soon, and then merged.''),
        add_pull example_world (strict_method example_config))"
    using b m(1)
      handle_merge_error_classification
        [where message = ?base and status_code = 405 and ext = example_collaborators
           and cfg = example_config and w = example_world]
    by blast
  have three: "handle_merge_error example_collaborators (example_config\<lparr>strict := Strict_True\<rparr>)
       405 ?base example_world
     = (update_pull_base_branch example_collaborators (ctxt example_world)
          (strict_method (example_config\<lparr>strict := Strict_True\<rparr>)),
        example_world\<lparr>calls := calls example_world
          @ [Update_pull_base_branch (strict_method (example_config\<lparr>strict := Strict_True\<rparr>))]\<rparr>)"
    using b m(2)
      handle_merge_error_classification
        [where message = ?base and status_code = 405 and ext = example_collaborators
           and cfg = "example_config\<lparr>strict := Strict_True\<rparr>" and w = example_world]
    by blast
  have four: "fst (handle_merge_error example_collaborators example_config 405 ?base ?locked)
     = (Some Failure,
        ''Pull request can't be updated with latest base branch changes, ''
          @ ''owner doesn't allow modification'', [])"
    using b m(3)
      handle_merge_error_classification
        [where message = ?base and status_code = 405 and ext = example_collaborators
           and cfg = example_config and w = ?locked]
    by blast
  have five: "handle_merge_error example_collaborators example_config 405
       ''Required status check is expected.'' example_world
     = ((None, ''Waiting for the Branch Protection to be validated'',
         ''Branch Protection is enabled and is preventing Mergify to merge the pull request. ''
           @ ''Mergify will merge when branch protection settings validate the pull request. ''
           @ ''(detail: '' @ ''Required status check is expected.'' @ '')''), example_world)"
    using p
      handle_merge_error_classification
        [where message = "''Required status check is expected.''"
           and status_code = 405 and ext = example_collaborators and cfg = example_config
           and w = example_world]
    by blast
  have six: "handle_merge_error example_collaborators example_config 409
       ''Merge conflict'' example_world
     = ((Some Failure, ''Mergify failed to merge the pull request'',
         ''GitHub error message: `'' @ ''Merge conflict'' @ ''`''), example_world)"
    using f
      handle_merge_error_classification
        [where message = "''Merge conflict''"
           and status_code = 409 and ext = example_collaborators and cfg = example_config
           and w = example_world]
    by blast
  have a: "add_pull example_world (strict_method example_config)
     = \<lparr>ctxt = example_ctxt, queue = [(3, Merge), (7, Merge)], calls = [Queue_add_pull Merge]\<rparr>"
    by (simp add: add_pull_def enqueue_def example_defs)
  have u: "(update_pull_base_branch example_collaborators (ctxt example_world)
          (strict_method (example_config\<lparr>strict := Strict_True\<rparr>)),
        example_world\<lparr>calls := calls example_world
          @ [Update_pull_base_branch (strict_method (example_config\<lparr>strict := Strict_True\<rparr>))]\<rparr>)
     = ((None, ''Base branch updates done'', []),
        \<lparr>ctxt = example_ctxt, queue = [(3, Merge), (7, Rebase)],
         calls = [Update_pull_base_branch Merge]\<rparr>)"
    by (simp add: example_defs)
  show ?thesis
    unfolding one two three four five six a u by simp
qed

text \<open>
  The claim as it was stated has the sync path re-entered instead of a failure being
  reported, and the status \<^verbatim>\<open>None\<close> for the status code 405. For the status code
  405 with the message \<^verbatim>\<open>Base branch was modified. Review and try the merge again.\<close>,
  a refreshed snapshot that is not merged and a base branch that may not be modified,
  the classifier and the merge attempt report the status \<^verbatim>\<open>failure\<close>.
\<close>

theorem handle_merge_error_classification_counterexample:
  "\<not> contains ''Head branch was modified''
       ''Base branch was modified. Review and try the merge again.''
   \<and> contains ''Base branch was modified''
       ''Base branch was modified. Review and try the merge again.''
   \<and> \<not> pull_merged (example_ctxt\<lparr>pull_base_is_modifiable := False\<rparr>)
   \<and> fst (handle_merge_error example_collaborators (example_config\<lparr>strict := Strict_True\<rparr>) 405
        ''Base branch was modified. Review and try the merge again.''
        (example_world\<lparr>ctxt := example_ctxt\<lparr>pull_base_is_modifiable := False\<rparr>\<rparr>))
     = (Some Failure,
        ''Pull request can't be updated with latest base branch changes, owner doesn't allow modification'',
        [])
   \<and> fst (merge
        (refusing_collaborators 405 ''Base branch was modified. Review and try the merge again.'')
        (example_config\<lparr>strict := Strict_True\<rparr>)
        (example_world\<lparr>ctxt := example_ctxt\<lparr>pull_base_is_modifiable := False\<rparr>\<rparr>))
     = Inr (Some (Some Failure,
        ''Pull request can't be updated with latest base branch changes, owner doesn't allow modification'',
        []))
   \<and> Some Failure \<noteq> (None :: conclusion option)"
proof -
  let ?base = "''Base branch was modified. Review and try the merge again.''"
  let ?c = "example_ctxt\<lparr>pull_base_is_modifiable := False\<rparr>"
  have cm: "get_commit_message (render (refusing_collaborators 405 ?base) ?c) ?c Default
              = Inr (Some (''Fix bug'', Some ''Details here''))"
    by (rule example_get_commit_message) (simp_all add: example_defs)
  have b: "\<not> contains ''Head branch was modified'' ?base
           \<and> contains ''Base branch was modified'' ?base"
    by simp
  have u: "\<not> pull_merged ?c"
    by (simp add: example_ctxt_def)
  have h: "fst (handle_merge_error example_collaborators (example_config\<lparr>strict := Strict_True\<rparr>)
                  405 ?base (example_world\<lparr>ctxt := ?c\<rparr>))
     = (Some Failure,
        ''Pull request can't be updated with latest base branch changes, owner doesn't allow modification'',
        [])"
    using b by (simp add: handle_merge_error_def sync_with_base_branch_def)
  have m: "fst (merge (refusing_collaborators 405 ?base) (example_config\<lparr>strict := Strict_True\<rparr>)
                  (example_world\<lparr>ctxt := ?c\<rparr>))
     = Inr (Some (Some Failure,
        ''Pull request can't be updated with latest base branch changes, owner doesn't allow modification'',
        []))"
    using cm b
    by (simp add: merge_def merge_method_for_def update_def handle_merge_error_def
        sync_with_base_branch_def build_data_def example_defs)
  show ?thesis
    using b u h m by simp
qed

section \<open>Cancelling\<close>

text \<open>
  C3, as amended. For \<^verbatim>\<open>cancel\<close> with \<^verbatim>\<open>config.strict\<close> true or
  \<^verbatim>\<open>"smart"\<close>: when the pull request is not closed, \<^verbatim>\<open>missing_conditions\<close> is
  not empty, every one of its conditions is on an attribute starting with
  \<^verbatim>\<open>status-\<close>, and every check state those conditions match is
  \<^verbatim>\<open>"pending"\<close> or \<^verbatim>\<open>None\<close> (which includes no checks at all and no
  matched check), \<^verbatim>\<open>cancel\<close> returns the report of \<^verbatim>\<open>get_wait_for_ci_report\<close> and
  touches neither the queue nor anything else. When some condition is not a status
  condition, or the pull request is closed, it returns \<^verbatim>\<open>cancelled_check_report\<close>,
  after \<^verbatim>\<open>queue.remove_pull\<close> when \<^verbatim>\<open>strict == "smart"\<close>.
\<close>

theorem cancel_waits_for_pending_statuses:
  assumes "strict_truthy (strict cfg)"
  shows "(pull_state (ctxt w) \<noteq> ''closed'' \<and> missing_conditions \<noteq> []
          \<and> (\<forall>c\<in>set missing_conditions. startswith ''status-'' (attribute_name c))
          \<and> (\<forall>state\<in>set (matched_states (checks (ctxt w)) missing_conditions).
                state = Some ''pending'' \<or> state = None)
          \<longrightarrow> cancel ext cfg w missing_conditions = (get_wait_for_ci_report ext (ctxt w), w))
       \<and> ((\<exists>c\<in>set missing_conditions. \<not> startswith ''status-'' (attribute_name c))
            \<or> pull_state (ctxt w) = ''closed''
          \<longrightarrow> cancel ext cfg w missing_conditions =
                (cancelled_check_report ext, if strict cfg = Smart then remove_pull w else w))"
proof (intro conjI impI)
  assume h: "pull_state (ctxt w) \<noteq> ''closed'' \<and> missing_conditions \<noteq> []
          \<and> (\<forall>c\<in>set missing_conditions. startswith ''status-'' (attribute_name c))
          \<and> (\<forall>state\<in>set (matched_states (checks (ctxt w)) missing_conditions).
                state = Some ''pending'' \<or> state = None)"
  then have n: "need_look_at_checks [] missing_conditions = Some missing_conditions"
    by (simp add: need_look_at_checks_all list_all_iff)
  have "required_statuses_in_progress (ctxt w) missing_conditions"
    using h by (simp add: required_statuses_in_progress_def n Let_def list_ex_of_all)
  then show "cancel ext cfg w missing_conditions = (get_wait_for_ci_report ext (ctxt w), w)"
    using assms by (simp add: cancel_def)
next
  assume "(\<exists>c\<in>set missing_conditions. \<not> startswith ''status-'' (attribute_name c))
            \<or> pull_state (ctxt w) = ''closed''"
  then have "\<not> required_statuses_in_progress (ctxt w) missing_conditions"
    by (auto simp: required_statuses_in_progress_def need_look_at_checks_all list_all_iff)
  then show "cancel ext cfg w missing_conditions =
                (cancelled_check_report ext, if strict cfg = Smart then remove_pull w else w)"
    by (simp add: cancel_def)
qed

theorem cancel_waits_for_pending_statuses_witness:
  "matched_states (checks (ctxt example_world)) [status_condition] = [Some ''pending'']
   \<and> cancel example_collaborators example_config example_world [status_condition]
       = ((None, ''Waiting for status checks'', []), example_world)
   \<and> cancel example_collaborators example_config example_world
         [status_condition, label_condition]
       = ((Some Cancelled, ''The rule doesn't match anymore'', ''This action has been cancelled.''),
          \<lparr>ctxt = example_ctxt, queue = [(3, Merge)], calls = [Queue_remove_pull]\<rparr>)"
proof -
  have s: "strict_truthy (strict example_config)"
    by (simp add: strict_truthy_def example_defs)
  have m: "matched_states (checks (ctxt example_world)) [status_condition] = [Some ''pending'']"
    by (simp add: matched_states_def status_condition_def example_defs)
  have a: "pull_state (ctxt example_world) \<noteq> ''closed'' \<and> [status_condition] \<noteq> []
          \<and> (\<forall>c\<in>set [status_condition]. startswith ''status-'' (attribute_name c))
          \<and> (\<forall>state\<in>set (matched_states (checks (ctxt example_world)) [status_condition]).
                state = Some ''pending'' \<or> state = None)"
    unfolding m by (simp add: status_condition_def example_defs)
  have b: "(\<exists>c\<in>set [status_condition, label_condition].
              \<not> startswith ''status-'' (attribute_name c))
            \<or> pull_state (ctxt example_world) = ''closed''"
    by (simp add: label_condition_def)
  show ?thesis
    using a b m
      cancel_waits_for_pending_statuses
        [OF s, where missing_conditions = "[status_condition]" and w = example_world
           and ext = example_collaborators]
      cancel_waits_for_pending_statuses
        [OF s, where missing_conditions = "[status_condition, label_condition]"
           and w = example_world and ext = example_collaborators]
    by (simp add: remove_pull_def dequeue_def example_defs)
qed

text \<open>
  The claim as it was stated has no exception for an empty list of missing conditions,
  of which every condition is a status condition and every matched state is pending.
  There \<^verbatim>\<open>cancel\<close> does not wait: with \<^verbatim>\<open>strict\<close> true and an open pull request it
  returns the cancelled report, which is not the report of
  \<^verbatim>\<open>get_wait_for_ci_report\<close>.
\<close>

theorem cancel_waits_for_pending_statuses_counterexample:
  "strict_truthy (strict (example_config\<lparr>strict := Strict_True\<rparr>))
   \<and> pull_state (ctxt example_world) \<noteq> ''closed''
   \<and> list_all (\<lambda>c. startswith ''status-'' (attribute_name c)) []
   \<and> list_all (\<lambda>state. state = Some ''pending'' \<or> state = None)
        (matched_states (checks (ctxt example_world)) [])
   \<and> cancel example_collaborators (example_config\<lparr>strict := Strict_True\<rparr>) example_world []
       = ((Some Cancelled, ''The rule doesn't match anymore'', ''This action has been cancelled.''),
          example_world)
   \<and> get_wait_for_ci_report example_collaborators (ctxt example_world)
       = (None, ''Waiting for status checks'', [])"
  by (simp add: cancel_def required_statuses_in_progress_def matched_states_def
      strict_truthy_def example_defs)

section \<open>The base branch cannot be updated\<close>

text \<open>
  C4, as amended. When the base branch may not be modified, the outcome of
  \<^verbatim>\<open>_sync_with_base_branch\<close> has the status \<^verbatim>\<open>failure\<close>, with the summary
  that the owner does not allow modification and an empty detail, whatever
  \<^verbatim>\<open>strict\<close> is; and it is the outcome of \<^verbatim>\<open>run\<close> when \<^verbatim>\<open>run\<close> takes the
  sync path (\<^verbatim>\<open>strict\<close> true or \<^verbatim>\<open>"smart"\<close>, the pull request behind, no merge
  report).
\<close>

theorem sync_unmodifiable_base_fails:
  assumes "\<not> pull_base_is_modifiable (ctxt w)"
  shows "fst (sync_with_base_branch ext cfg w) =
           (Some Failure,
            ''Pull request can't be updated with latest base branch changes, ''
              @ ''owner doesn't allow modification'', [])
         \<and> (strict_truthy (strict cfg) \<and> is_behind (ctxt w)
              \<and> merge_report ext (ctxt w) (strict cfg) = None \<longrightarrow>
            fst (run ext cfg w missing_conditions) =
              Inr (Some (Some Failure,
                ''Pull request can't be updated with latest base branch changes, ''
                  @ ''owner doesn't allow modification'', [])))"
  using assms by (simp add: sync_with_base_branch_def run_def)

theorem sync_unmodifiable_base_fails_witness:
  "fst (run example_collaborators example_config
       (example_world\<lparr>ctxt := example_ctxt\<lparr>is_behind := True, pull_base_is_modifiable := False\<rparr>\<rparr>)
       [])
     = Inr (Some (Some Failure,
          ''Pull request can't be updated with latest base branch changes, owner doesn't allow modification'',
          []))
   \<and> fst (run example_collaborators (example_config\<lparr>strict := Strict_True\<rparr>)
       (example_world\<lparr>ctxt := example_ctxt\<lparr>is_behind := True, pull_base_is_modifiable := False\<rparr>\<rparr>)
       [])
     = Inr (Some (Some Failure,
          ''Pull request can't be updated with latest base branch changes, owner doesn't allow modification'',
          []))"
proof -
  let ?w = "example_world\<lparr>ctxt := example_ctxt\<lparr>is_behind := True, pull_base_is_modifiable := False\<rparr>\<rparr>"
  let ?true = "example_config\<lparr>strict := Strict_True\<rparr>"
  have a: "\<not> pull_base_is_modifiable (ctxt ?w)"
    by simp
  have b: "strict_truthy (strict example_config) \<and> is_behind (ctxt ?w)
             \<and> merge_report example_collaborators (ctxt ?w) (strict example_config) = None"
    by (simp add: strict_truthy_def example_defs)
  have c: "strict_truthy (strict ?true) \<and> is_behind (ctxt ?w)
             \<and> merge_report example_collaborators (ctxt ?w) (strict ?true) = None"
    by (simp add: strict_truthy_def example_defs)
  from b c
    sync_unmodifiable_base_fails
      [OF a, where cfg = example_config and ext = example_collaborators
         and missing_conditions = "[]"]
    sync_unmodifiable_base_fails
      [OF a, where cfg = ?true and ext = example_collaborators and missing_conditions = "[]"]
  show ?thesis
    by simp
qed

text \<open>
  The claim as it was stated gives the status \<^verbatim>\<open>action_required\<close>. With
  \<^verbatim>\<open>strict\<close> true, the pull request behind and a base branch that may not be
  modified, \<^verbatim>\<open>run\<close> returns the status \<^verbatim>\<open>failure\<close>.
\<close>

theorem sync_unmodifiable_base_fails_counterexample:
  "strict_truthy (strict (example_config\<lparr>strict := Strict_True\<rparr>))
   \<and> is_behind (example_ctxt\<lparr>is_behind := True, pull_base_is_modifiable := False\<rparr>)
   \<and> \<not> pull_base_is_modifiable (example_ctxt\<lparr>is_behind := True, pull_base_is_modifiable := False\<rparr>)
   \<and> fst (run example_collaborators (example_config\<lparr>strict := Strict_True\<rparr>)
        (example_world\<lparr>ctxt := example_ctxt\<lparr>is_behind := True, pull_base_is_modifiable := False\<rparr>\<rparr>)
        [])
     = Inr (Some (Some Failure,
          ''Pull request can't be updated with latest base branch changes, owner doesn't allow modification'',
          []))
   \<and> Some Failure \<noteq> Some Action_required"
  by (simp add: run_def sync_with_base_branch_def strict_truthy_def example_defs)

section \<open>The merge attempt\<close>

text \<open>
  C5, as amended. Let the configured method be \<^verbatim>\<open>rebase\<close> and the pull request
  not rebaseable. With no fallback, \<^verbatim>\<open>run\<close> returns the status
  \<^verbatim>\<open>action_required\<close> with the summary that automatic rebasing is not possible
  whenever it reaches the merge attempt, that is when \<^verbatim>\<open>merge_report\<close> gives no
  report and the pull request is not both under \<^verbatim>\<open>strict\<close> and behind; and on
  every path it sends no merge request. With the fallback \<^verbatim>\<open>merge\<close> or
  \<^verbatim>\<open>squash\<close>, the attempt picks the fallback and every merge request it sends
  carries it as \<^verbatim>\<open>merge_method\<close>.
\<close>

theorem run_rebase_not_possible:
  assumes "config_method cfg = Rebase" and "\<not> pull_rebaseable (ctxt w)"
  shows "(rebase_fallback cfg = None \<and> merge_report ext (ctxt w) (strict cfg) = None
            \<and> \<not> (strict_truthy (strict cfg) \<and> is_behind (ctxt w)) \<longrightarrow>
          run ext cfg w missing_conditions =
            (Inr (Some (Some Action_required,
               ''Automatic rebasing is not possible, manual intervention required'', [])),
             if strict cfg = Smart then remove_pull w else w))
       \<and> (rebase_fallback cfg = None \<longrightarrow>
            (\<exists>suffix. calls (snd (run ext cfg w missing_conditions)) = calls w @ suffix
               \<and> (\<forall>n d. Client_put n d \<notin> set suffix)))
       \<and> (\<forall>fallback. rebase_fallback cfg = Some fallback \<longrightarrow>
            merge_method_for cfg (ctxt w) = Some fallback
            \<and> (\<exists>suffix. calls (snd (merge ext cfg w)) = calls w @ suffix
                 \<and> (\<forall>n d. Client_put n d \<in> set suffix \<longrightarrow> json_merge_method d = fallback)))"
proof (intro conjI impI allI)
  assume "rebase_fallback cfg = None \<and> merge_report ext (ctxt w) (strict cfg) = None
            \<and> \<not> (strict_truthy (strict cfg) \<and> is_behind (ctxt w))"
  then show "run ext cfg w missing_conditions =
            (Inr (Some (Some Action_required,
               ''Automatic rebasing is not possible, manual intervention required'', [])),
             if strict cfg = Smart then remove_pull w else w)"
    using assms by (auto simp: run_def merge_def merge_method_for_def)
next
  assume "rebase_fallback cfg = None"
  then have m: "merge ext cfg w = (Inr (Some (Some Action_required,
               ''Automatic rebasing is not possible, manual intervention required'', [])), w)"
    using assms by (simp add: merge_def merge_method_for_def)
  show "\<exists>suffix. calls (snd (run ext cfg w missing_conditions)) = calls w @ suffix
               \<and> (\<forall>n d. Client_put n d \<notin> set suffix)"
    using sync_with_base_branch_calls [of ext cfg w]
    by (auto simp: run_def m remove_pull_calls split: option.splits prod.splits)
next
  fix fallback
  assume "rebase_fallback cfg = Some fallback"
  then show "merge_method_for cfg (ctxt w) = Some fallback"
    using assms by (simp add: merge_method_for_def)
next
  fix fallback
  assume "rebase_fallback cfg = Some fallback"
  then have mm: "merge_method_for cfg (ctxt w) = Some fallback"
    using assms by (simp add: merge_method_for_def)
  show "\<exists>suffix. calls (snd (merge ext cfg w)) = calls w @ suffix
                 \<and> (\<forall>n d. Client_put n d \<in> set suffix \<longrightarrow> json_merge_method d = fallback)"
    using merge_calls [OF mm] .
qed

theorem run_rebase_not_possible_witness:
  "run example_collaborators (example_config\<lparr>config_method := Rebase, rebase_fallback := None\<rparr>)
       example_world []
     = (Inr (Some (Some Action_required,
          ''Automatic rebasing is not possible, manual intervention required'', [])),
        \<lparr>ctxt = example_ctxt, queue = [(3, Merge)], calls = [Queue_remove_pull]\<rparr>)
   \<and> merge_method_for (example_config\<lparr>config_method := Rebase, rebase_fallback := Some Squash\<rparr>)
       (ctxt example_world) = Some Squash
   \<and> calls (snd (merge example_collaborators
        (example_config\<lparr>config_method := Rebase, rebase_fallback := Some Squash\<rparr>) example_world))
     = [Client_put 7 (example_data\<lparr>json_merge_method := Squash\<rparr>), Ctxt_update]"
proof -
  let ?none = "example_config\<lparr>config_method := Rebase, rebase_fallback := None\<rparr>"
  let ?squash = "example_config\<lparr>config_method := Rebase, rebase_fallback := Some Squash\<rparr>"
  have a: "config_method ?none = Rebase" "config_method ?squash = Rebase"
    by simp_all
  have b: "\<not> pull_rebaseable (ctxt example_world)"
    by (simp add: example_defs)
  have c: "rebase_fallback ?none = None
            \<and> merge_report example_collaborators (ctxt example_world) (strict ?none) = None
            \<and> \<not> (strict_truthy (strict ?none) \<and> is_behind (ctxt example_world))"
    by (simp add: example_defs)
  have d: "rebase_fallback ?squash = Some Squash"
    by simp
  have mm: "merge_method_for ?squash (ctxt example_world) = Some Squash"
    using run_rebase_not_possible [OF a(2) b, where ext = example_collaborators] d by blast
  have cm: "get_commit_message (render example_collaborators example_ctxt) example_ctxt Default
              = Inr (Some (''Fix bug'', Some ''Details here''))"
    by (rule example_commit_message)
  have e: "calls (snd (merge example_collaborators ?squash example_world))
     = [Client_put 7 (example_data\<lparr>json_merge_method := Squash\<rparr>), Ctxt_update]"
    using cm mm
    by (simp add: merge_def update_def build_data_def example_defs)
  have f: "remove_pull example_world
             = \<lparr>ctxt = example_ctxt, queue = [(3, Merge)], calls = [Queue_remove_pull]\<rparr>"
    by (simp add: remove_pull_def dequeue_def example_defs)
  have g: "strict ?none = Smart"
    by (simp add: example_defs)
  from run_rebase_not_possible
         [OF a(1) b, where ext = example_collaborators and missing_conditions = "[]"] c
  have "run example_collaborators ?none example_world []
     = (Inr (Some (Some Action_required,
          ''Automatic rebasing is not possible, manual intervention required'', [])),
        if strict ?none = Smart then remove_pull example_world else example_world)"
    by blast
  then show ?thesis
    using mm e by (simp only: g f if_True simp_thms)
qed

text \<open>
  The claim as it was stated holds of every snapshot that is not rebaseable. With
  \<^verbatim>\<open>strict == "smart"\<close> and the pull request behind, \<^verbatim>\<open>run\<close> never reaches
  the merge attempt: it enqueues the pull request and returns the status
  \<^verbatim>\<open>None\<close>.
\<close>

theorem run_rebase_not_possible_counterexample:
  "config_method (example_config\<lparr>config_method := Rebase, rebase_fallback := None\<rparr>) = Rebase
   \<and> rebase_fallback (example_config\<lparr>config_method := Rebase, rebase_fallback := None\<rparr>) = None
   \<and> \<not> pull_rebaseable (example_ctxt\<lparr>is_behind := True\<rparr>)
   \<and> fst (run example_collaborators
        (example_config\<lparr>config_method := Rebase, rebase_fallback := None\<rparr>)
        (example_world\<lparr>ctxt := example_ctxt\<lparr>is_behind := True\<rparr>\<rparr>) [])
     = Inr (Some (None, ''Base branch will be updated soon'',
         ''The pull request base branch will be updated soon, and then merged.''))
   \<and> (None :: conclusion option) \<noteq> Some Action_required"
  by (simp add: run_def sync_with_base_branch_def add_pull_def strict_truthy_def example_defs)

text \<open>
  C7. When the merge request fails with a client-side error, \<^verbatim>\<open>_merge\<close> refreshes
  the snapshot next, before anything else. If the refreshed snapshot shows the pull
  request merged, the result is the merge report of the refreshed snapshot and the error
  is not classified; otherwise \<^verbatim>\<open>_handle_merge_error\<close> classifies the error on the
  refreshed snapshot.
\<close>

theorem merge_client_error_refreshes_first:
  assumes "merge_method_for cfg (ctxt w) = Some m"
    and "get_commit_message (render ext (ctxt w)) (ctxt w) (commit_message cfg) = Inr ctm"
    and "client_put ext (ctxt w) (build_data ctm (ctxt w) m)
           = HTTPClientSideError status_code message"
    and "ctxt_refresh ext (ctxt w) = Inr c'"
  shows "(pull_merged c' \<longrightarrow>
           merge ext cfg w =
             (Inr (merge_report ext c' (strict cfg)),
              w\<lparr>ctxt := c',
                calls := calls w @ [Client_put (pull_number (ctxt w)) (build_data ctm (ctxt w) m),
                                    Ctxt_update]\<rparr>))
       \<and> (\<not> pull_merged c' \<longrightarrow>
           merge ext cfg w =
             (Inr (Some (fst (handle_merge_error ext cfg status_code message
                (w\<lparr>ctxt := c',
                  calls := calls w @ [Client_put (pull_number (ctxt w)) (build_data ctm (ctxt w) m),
                                      Ctxt_update]\<rparr>)))),
              snd (handle_merge_error ext cfg status_code message
                (w\<lparr>ctxt := c',
                  calls := calls w @ [Client_put (pull_number (ctxt w)) (build_data ctm (ctxt w) m),
                                      Ctxt_update]\<rparr>))))"
  using assms by (simp add: merge_def update_def Let_def split: prod.splits)

theorem merge_client_error_refreshes_first_witness:
  "merge (example_collaborators\<lparr>client_put := (\<lambda>c d. HTTPClientSideError 405 ''Pull Request is not mergeable'')\<rparr>)
       example_config example_world
     = (Inr (Some (Some Success, ''The pull request has been merged automatically'', [])),
        \<lparr>ctxt = example_ctxt\<lparr>pull_merged := True\<rparr>, queue = [(3, Merge), (7, Rebase)],
         calls = [Client_put 7 example_data, Ctxt_update]\<rparr>)
   \<and> merge (refusing_collaborators 409 ''Merge conflict'') example_config example_world
     = (Inr (Some (Some Failure, ''Mergify failed to merge the pull request'',
                   ''GitHub error message: `Merge conflict`'')),
        \<lparr>ctxt = example_ctxt, queue = [(3, Merge), (7, Rebase)],
         calls = [Client_put 7 example_data, Ctxt_update]\<rparr>)"
proof -
  let ?race = "example_collaborators\<lparr>client_put := (\<lambda>c d. HTTPClientSideError 405 ''Pull Request is not mergeable'')\<rparr>"
  let ?refused = "refusing_collaborators 409 ''Merge conflict''"
  have m: "merge_method_for example_config (ctxt example_world) = Some Merge"
    by (simp add: merge_method_for_def example_defs)
  have cm1: "get_commit_message (render ?race (ctxt example_world)) (ctxt example_world)
               (commit_message example_config) = Inr (Some (''Fix bug'', Some ''Details here''))"
    by (simp add: example_world_def example_config_def)
       (rule example_get_commit_message, simp_all add: example_defs)
  have cm2: "get_commit_message (render ?refused (ctxt example_world)) (ctxt example_world)
               (commit_message example_config) = Inr (Some (''Fix bug'', Some ''Details here''))"
    by (simp add: example_world_def example_config_def)
       (rule example_get_commit_message, simp_all add: example_defs)
  have p1: "client_put ?race (ctxt example_world)
              (build_data (Some (''Fix bug'', Some ''Details here'')) (ctxt example_world) Merge)
            = HTTPClientSideError 405 ''Pull Request is not mergeable''"
    by simp
  have p2: "client_put ?refused (ctxt example_world)
              (build_data (Some (''Fix bug'', Some ''Details here'')) (ctxt example_world) Merge)
            = HTTPClientSideError 409 ''Merge conflict''"
    by (simp add: refusing_collaborators_def)
  have r1: "ctxt_refresh ?race (ctxt example_world) = Inr (example_ctxt\<lparr>pull_merged := True\<rparr>)"
    by (simp add: example_collaborators_def example_world_def)
  have r2: "ctxt_refresh ?refused (ctxt example_world) = Inr example_ctxt"
    by (simp add: refusing_collaborators_def example_world_def)
  have b: "build_data (Some (''Fix bug'', Some ''Details here'')) (ctxt example_world) Merge
             = example_data"
    by (simp add: example_world_def example_build_data)
  have merged: "pull_merged (example_ctxt\<lparr>pull_merged := True\<rparr>)"
    by simp
  have unmerged: "\<not> pull_merged example_ctxt"
    by (simp add: example_ctxt_def)
  have one: "merge ?race example_config example_world
     = (Inr (Some (Some Success, ''The pull request has been merged automatically'', [])),
        \<lparr>ctxt = example_ctxt\<lparr>pull_merged := True\<rparr>, queue = [(3, Merge), (7, Rebase)],
         calls = [Client_put 7 example_data, Ctxt_update]\<rparr>)"
    using merge_client_error_refreshes_first [OF m cm1 p1 r1] merged
    by (simp add: b) (simp add: example_defs)
  have two: "merge ?refused example_config example_world
     = (Inr (Some (Some Failure, ''Mergify failed to merge the pull request'',
                   ''GitHub error message: `Merge conflict`'')),
        \<lparr>ctxt = example_ctxt, queue = [(3, Merge), (7, Rebase)],
         calls = [Client_put 7 example_data, Ctxt_update]\<rparr>)"
    using merge_client_error_refreshes_first [OF m cm2 p2 r2] unmerged
    by (simp add: b handle_merge_error_def) (simp add: example_defs)
  show ?thesis
    using one two by simp
qed

text \<open>
  C8. Rendering happens in the default mode, for a body in which the section was
  found and holds a line that is not blank: first the title, then the message. When
  \<^verbatim>\<open>run\<close> reaches the merge attempt, a method is picked, and the rendering of the
  title fails, or the title renders and the rendering of the message fails, with a
  template syntax error, another template error or an unknown attribute error,
  \<^verbatim>\<open>run\<close> returns the status \<^verbatim>\<open>action_required\<close> with the summary
  \<^verbatim>\<open>Invalid commit message\<close>; the detail carries the message of the error, with
  \<^verbatim>\<open> at line \<close> and the line number for a syntax error, or the name of the
  unknown attribute. An exception of another kind leaves \<^verbatim>\<open>run\<close> as it is. In
  every case the only outward call is the queue removal of the smart mode: no merge
  request is sent.
\<close>

theorem run_invalid_commit_message:
  assumes "merge_report ext (ctxt w) (strict cfg) = None"
    and "\<not> (strict_truthy (strict cfg) \<and> is_behind (ctxt w))"
    and "merge_method_for cfg (ctxt w) \<noteq> None"
    and "commit_message cfg = Default"
    and "pull_body (ctxt w) = Some b" and "b \<noteq> []"
    and "scan_body False [] (split_nl b) = (True, message_lines)"
    and "dropWhile blank message_lines = title # rest"
    and "render ext (ctxt w) (strip title) = Inl e
         \<or> (\<exists>t. render ext (ctxt w) (strip title) = Inr t
               \<and> render ext (ctxt w) (join_nl (map strip (dropWhile blank rest))) = Inl e)"
  shows "run ext cfg w missing_conditions =
           ((case e of
               TemplateSyntaxError tse_message tse_lineno \<Rightarrow>
                 Inr (Some (Some Action_required, ''Invalid commit message'',
                   ''There is an error in your commit message: '' @ tse_message
                     @ '' at line '' @ str_int tse_lineno))
             | TemplateError te_message \<Rightarrow>
                 Inr (Some (Some Action_required, ''Invalid commit message'',
                   ''There is an error in your commit message: '' @ te_message))
             | PullRequestAttributeError e_name \<Rightarrow>
                 Inr (Some (Some Action_required, ''Invalid commit message'',
                   ''There is an error in your commit message, the following variable is unknown: ''
                     @ e_name))
             | Other_exception x \<Rightarrow> Inl x),
            if strict cfg = Smart then remove_pull w else w)
         \<and> calls (snd (run ext cfg w missing_conditions))
             = calls w @ (if strict cfg = Smart then [Queue_remove_pull] else [])"
proof -
  have g: "get_commit_message (render ext (ctxt w)) (ctxt w) (commit_message cfg) = Inl e"
    using assms(4-9) by (auto simp: get_commit_message_renders)
  show ?thesis
    using assms(1-3) g
    by (cases e) (auto simp: run_def merge_def remove_pull_calls split: prod.splits)
qed

theorem run_invalid_commit_message_witness:
  "fst (run (example_collaborators
               \<lparr>render := (\<lambda>c s. if s = ''Fix bug''
                                  then Inl (TemplateSyntaxError ''unexpected end of template'' 12)
                                  else Inr s)\<rparr>)
            example_config example_world [])
     = Inr (Some (Some Action_required, ''Invalid commit message'',
         ''There is an error in your commit message: unexpected end of template at line 12''))
   \<and> fst (run (example_collaborators
               \<lparr>render := (\<lambda>c s. if s = ''Details here''
                                  then Inl (TemplateError ''no filter named shout'')
                                  else Inr s)\<rparr>)
            example_config example_world [])
     = Inr (Some (Some Action_required, ''Invalid commit message'',
         ''There is an error in your commit message: no filter named shout''))
   \<and> fst (run (example_collaborators
               \<lparr>render := (\<lambda>c s. Inl (PullRequestAttributeError ''autor''))\<rparr>)
            example_config example_world [])
     = Inr (Some (Some Action_required, ''Invalid commit message'',
         ''There is an error in your commit message, the following variable is unknown: autor''))
   \<and> calls (snd (run (example_collaborators
               \<lparr>render := (\<lambda>c s. Inl (PullRequestAttributeError ''autor''))\<rparr>)
            example_config example_world []))
     = [Queue_remove_pull]
   \<and> fst (run (example_collaborators
               \<lparr>render := (\<lambda>c s. Inl (Other_exception (Uncaught ''ZeroDivisionError'')))\<rparr>)
            example_config example_world [])
     = Inl (Uncaught ''ZeroDivisionError'')"
proof -
  let ?tse = "example_collaborators
                \<lparr>render := (\<lambda>c s. if s = ''Fix bug''
                                   then Inl (TemplateSyntaxError ''unexpected end of template'' 12)
                                   else Inr s)\<rparr>"
  let ?te = "example_collaborators
               \<lparr>render := (\<lambda>c s. if s = ''Details here''
                                  then Inl (TemplateError ''no filter named shout'')
                                  else Inr s)\<rparr>"
  let ?pae = "example_collaborators
                \<lparr>render := (\<lambda>c s. Inl (PullRequestAttributeError ''autor''))\<rparr>"
  let ?other = "example_collaborators
                  \<lparr>render := (\<lambda>c s. Inl (Other_exception (Uncaught ''ZeroDivisionError'')))\<rparr>"
  have a: "merge_report (example_collaborators\<lparr>render := r\<rparr>) (ctxt example_world)
             (strict example_config) = None" for r
    by (simp add: example_defs)
  have b: "\<not> (strict_truthy (strict example_config) \<and> is_behind (ctxt example_world))"
    by (simp add: example_defs)
  have c: "merge_method_for example_config (ctxt example_world) \<noteq> None"
    by (simp add: merge_method_for_def example_defs)
  have d: "commit_message example_config = Default"
    by (simp add: example_defs)
  have pb: "pull_body (ctxt example_world) = Some example_body"
    by (simp add: example_defs)
  have ne: "example_body \<noteq> []"
    by (simp add: example_body_def)
  have dw: "dropWhile blank [''Fix bug'', [], ''Details here''] = ''Fix bug'' # [[], ''Details here'']"
    by (simp add: blank_def strip_def isspace_def)
  have st: "strip ''Fix bug'' = ''Fix bug''"
           "join_nl (map strip (dropWhile blank [[], ''Details here''])) = ''Details here''"
    by (simp_all add: blank_def strip_def isspace_def)
  have r1: "render ?tse (ctxt example_world) (strip ''Fix bug'')
              = Inl (TemplateSyntaxError ''unexpected end of template'' 12)
            \<or> (\<exists>t. render ?tse (ctxt example_world) (strip ''Fix bug'') = Inr t
                  \<and> render ?tse (ctxt example_world)
                       (join_nl (map strip (dropWhile blank [[], ''Details here''])))
                     = Inl (TemplateSyntaxError ''unexpected end of template'' 12))"
    unfolding st by simp
  have r2: "render ?te (ctxt example_world) (strip ''Fix bug'')
              = Inl (TemplateError ''no filter named shout'')
            \<or> (\<exists>t. render ?te (ctxt example_world) (strip ''Fix bug'') = Inr t
                  \<and> render ?te (ctxt example_world)
                       (join_nl (map strip (dropWhile blank [[], ''Details here''])))
                     = Inl (TemplateError ''no filter named shout''))"
    unfolding st by simp
  have r3: "render ?pae (ctxt example_world) (strip ''Fix bug'')
              = Inl (PullRequestAttributeError ''autor'')
            \<or> (\<exists>t. render ?pae (ctxt example_world) (strip ''Fix bug'') = Inr t
                  \<and> render ?pae (ctxt example_world)
                       (join_nl (map strip (dropWhile blank [[], ''Details here''])))
                     = Inl (PullRequestAttributeError ''autor''))"
    by simp
  have r4: "render ?other (ctxt example_world) (strip ''Fix bug'')
              = Inl (Other_exception (Uncaught ''ZeroDivisionError''))
            \<or> (\<exists>t. render ?other (ctxt example_world) (strip ''Fix bug'') = Inr t
                  \<and> render ?other (ctxt example_world)
                       (join_nl (map strip (dropWhile blank [[], ''Details here''])))
                     = Inl (Other_exception (Uncaught ''ZeroDivisionError'')))"
    by simp
  have n: "str_int 12 = ''12''"
    by (simp add: str_int_def digit_char_def)
  have s: "strict example_config = Smart" "calls example_world = []"
    by (simp_all add: example_defs)
  have one: "fst (run ?tse example_config example_world [])
     = Inr (Some (Some Action_required, ''Invalid commit message'',
         ''There is an error in your commit message: unexpected end of template at line 12''))"
    using run_invalid_commit_message
            [OF a b c d pb ne example_scan_body dw r1, where missing_conditions = "[]"]
    by (simp add: n)
  have two: "fst (run ?te example_config example_world [])
     = Inr (Some (Some Action_required, ''Invalid commit message'',
         ''There is an error in your commit message: no filter named shout''))"
    using run_invalid_commit_message
            [OF a b c d pb ne example_scan_body dw r2, where missing_conditions = "[]"]
    by simp
  have three: "fst (run ?pae example_config example_world [])
     = Inr (Some (Some Action_required, ''Invalid commit message'',
         ''There is an error in your commit message, the following variable is unknown: autor''))
     \<and> calls (snd (run ?pae example_config example_world [])) = [Queue_remove_pull]"
    using run_invalid_commit_message
            [OF a b c d pb ne example_scan_body dw r3, where missing_conditions = "[]"]
    by (simp add: s remove_pull_calls)
  have four: "fst (run ?other example_config example_world [])
     = Inl (Uncaught ''ZeroDivisionError'')"
    using run_invalid_commit_message
            [OF a b c d pb ne example_scan_body dw r4, where missing_conditions = "[]"]
    by simp
  show ?thesis
    using one two three four by simp
qed

section \<open>The commit message\<close>

text \<open>
  C6. In the default mode, for the body
  \<^verbatim>\<open>intro\n# Commit Message\nFix bug\n\nDetails here\n# Another Heading\nignored\<close>
  and a template engine that renders the two literal texts unchanged,
  \<^verbatim>\<open>_get_commit_message\<close> returns the title \<^verbatim>\<open>Fix bug\<close> and the body
  \<^verbatim>\<open>Details here\<close>. For a body of which no line matches
  \<^verbatim>\<open>MARKDOWN_COMMIT_MESSAGE_RE\<close> (one or more \<^verbatim>\<open>#\<close>, a space, the phrase in
  any letter case, an optional space, an optional colon, white space), and for a body
  whose collected lines are all blank, it returns \<^verbatim>\<open>None\<close>; so does it for a
  pull request without body.
\<close>

theorem get_commit_message_default:
  "(pull_body pull_request = Some example_body \<and> rnd ''Fix bug'' = Inr ''Fix bug''
      \<and> rnd ''Details here'' = Inr ''Details here'' \<longrightarrow>
    get_commit_message rnd pull_request Default
      = Inr (Some (''Fix bug'', Some ''Details here'')))
   \<and> ((\<forall>b. pull_body pull_request = Some b \<longrightarrow>
          (\<forall>line\<in>set (split_nl b). \<not> MARKDOWN_COMMIT_MESSAGE_RE line)) \<longrightarrow>
       get_commit_message rnd pull_request Default = Inr None)
   \<and> ((\<forall>b. pull_body pull_request = Some b \<longrightarrow>
          list_all blank (snd (scan_body False [] (split_nl b)))) \<longrightarrow>
       get_commit_message rnd pull_request Default = Inr None)"
proof (intro conjI impI)
  assume "pull_body pull_request = Some example_body \<and> rnd ''Fix bug'' = Inr ''Fix bug''
      \<and> rnd ''Details here'' = Inr ''Details here''"
  then show "get_commit_message rnd pull_request Default
      = Inr (Some (''Fix bug'', Some ''Details here''))"
    by (simp add: example_get_commit_message)
next
  assume "\<forall>b. pull_body pull_request = Some b \<longrightarrow>
          (\<forall>line\<in>set (split_nl b). \<not> MARKDOWN_COMMIT_MESSAGE_RE line)"
  then show "get_commit_message rnd pull_request Default = Inr None"
    unfolding get_commit_message_def
    by (auto simp: scan_body_no_heading split: option.splits)
next
  assume "\<forall>b. pull_body pull_request = Some b \<longrightarrow>
          list_all blank (snd (scan_body False [] (split_nl b)))"
  then show "get_commit_message rnd pull_request Default = Inr None"
    unfolding get_commit_message_def
    by (auto simp: dropWhile_all split: option.splits prod.splits)
qed

theorem get_commit_message_default_witness:
  "get_commit_message Inr example_ctxt Default = Inr (Some (''Fix bug'', Some ''Details here''))
   \<and> list_all (\<lambda>line. \<not> MARKDOWN_COMMIT_MESSAGE_RE line)
       (split_nl ''Fixes the parser.\<newline>#Commit Message\<newline>## Commit Messages'')
   \<and> get_commit_message Inr
       (example_ctxt\<lparr>pull_body := Some ''Fixes the parser.\<newline>#Commit Message\<newline>## Commit Messages''\<rparr>)
       Default = Inr None
   \<and> scan_body False [] (split_nl ''## commit message :\<newline>  \<newline>\<newline># Notes\<newline>text'')
       = (True, [''  '', []])
   \<and> get_commit_message Inr
       (example_ctxt\<lparr>pull_body := Some ''## commit message :\<newline>  \<newline>\<newline># Notes\<newline>text''\<rparr>)
       Default = Inr None"
proof -
  let ?plain = "''Fixes the parser.\<newline>#Commit Message\<newline>## Commit Messages''"
  let ?empty = "''## commit message :\<newline>  \<newline>\<newline># Notes\<newline>text''"
  have a: "pull_body example_ctxt = Some example_body \<and> Inr ''Fix bug'' = Inr ''Fix bug''
             \<and> Inr ''Details here'' = Inr ''Details here''"
    by (simp add: example_ctxt_def)
  have p: "list_all (\<lambda>line. \<not> MARKDOWN_COMMIT_MESSAGE_RE line) (split_nl ?plain)"
    by (simp add: regex_defs)
  then have b: "\<forall>b. pull_body (example_ctxt\<lparr>pull_body := Some ?plain\<rparr>) = Some b \<longrightarrow>
          (\<forall>line\<in>set (split_nl b). \<not> MARKDOWN_COMMIT_MESSAGE_RE line)"
    by (simp only: list_all_iff) simp
  have s: "scan_body False [] (split_nl ?empty) = (True, [''  '', []])"
    by (simp add: regex_defs)
  have c: "\<forall>b. pull_body (example_ctxt\<lparr>pull_body := Some ?empty\<rparr>) = Some b \<longrightarrow>
          list_all blank (snd (scan_body False [] (split_nl b)))"
    using s by (simp add: blank_def strip_def isspace_def)
  have one: "get_commit_message Inr example_ctxt Default
               = Inr (Some (''Fix bug'', Some ''Details here''))"
    using get_commit_message_default [where pull_request = example_ctxt and rnd = Inr] a
    by blast
  have two: "get_commit_message Inr (example_ctxt\<lparr>pull_body := Some ?plain\<rparr>) Default = Inr None"
    using get_commit_message_default
            [where pull_request = "example_ctxt\<lparr>pull_body := Some ?plain\<rparr>" and rnd = Inr] b
    by blast
  have three: "get_commit_message Inr (example_ctxt\<lparr>pull_body := Some ?empty\<rparr>) Default = Inr None"
    using get_commit_message_default
            [where pull_request = "example_ctxt\<lparr>pull_body := Some ?empty\<rparr>" and rnd = Inr] c
    by blast
  show ?thesis
    using one p two s three by simp
qed

section \<open>Exceptions and the empty cancellation\<close>

text \<open>
  C9. With \<^verbatim>\<open>strict == "smart"\<close>, when \<^verbatim>\<open>run\<close> takes the merge attempt (no merge
  report, the pull request not behind), it ends as \<^verbatim>\<open>_merge\<close> ends, with the
  outcome it returns or the exception it raises, and on either exit
  \<^verbatim>\<open>queue.remove_pull(ctxt)\<close> is the last call made and the queue holds no entry for
  the pull request. In particular an exception of \<^verbatim>\<open>_merge\<close> leaves \<^verbatim>\<open>run\<close>
  as that exception, after the removal.
\<close>

theorem run_smart_removes_on_every_exit:
  assumes "strict cfg = Smart"
    and "merge_report ext (ctxt w) (strict cfg) = None"
    and "\<not> is_behind (ctxt w)"
  shows "run ext cfg w missing_conditions
           = (fst (merge ext cfg w), remove_pull (snd (merge ext cfg w)))
         \<and> (\<forall>x. fst (merge ext cfg w) = Inl x \<longrightarrow> fst (run ext cfg w missing_conditions) = Inl x)
         \<and> last (calls (snd (run ext cfg w missing_conditions))) = Queue_remove_pull
         \<and> pull_number (ctxt (snd (run ext cfg w missing_conditions)))
             \<notin> fst ` set (queue (snd (run ext cfg w missing_conditions)))"
proof -
  have r: "run ext cfg w missing_conditions
             = (fst (merge ext cfg w), remove_pull (snd (merge ext cfg w)))"
    using assms by (cases "merge ext cfg w") (simp add: run_def)
  show ?thesis
    by (simp add: r remove_pull_calls remove_pull_absent)
qed

theorem run_smart_removes_on_every_exit_witness:
  "run (example_collaborators\<lparr>client_put := (\<lambda>c d. Put_raises (Uncaught ''ReadTimeout''))\<rparr>)
       example_config example_world []
     = (Inl (Uncaught ''ReadTimeout''),
        \<lparr>ctxt = example_ctxt, queue = [(3, Merge)],
         calls = [Client_put 7 example_data, Queue_remove_pull]\<rparr>)
   \<and> fst (run (example_collaborators\<lparr>ctxt_refresh := (\<lambda>c. Inl (Uncaught ''ConnectError''))\<rparr>)
            example_config example_world [])
     = Inl (Uncaught ''ConnectError'')
   \<and> last (calls (snd (run (example_collaborators\<lparr>ctxt_refresh := (\<lambda>c. Inl (Uncaught ''ConnectError''))\<rparr>)
            example_config example_world [])))
     = Queue_remove_pull"
proof -
  let ?timeout = "example_collaborators\<lparr>client_put := (\<lambda>c d. Put_raises (Uncaught ''ReadTimeout''))\<rparr>"
  let ?down = "example_collaborators\<lparr>ctxt_refresh := (\<lambda>c. Inl (Uncaught ''ConnectError''))\<rparr>"
  have a: "strict example_config = Smart"
    by (simp add: example_defs)
  have b: "merge_report ?timeout (ctxt example_world) (strict example_config) = None"
          "merge_report ?down (ctxt example_world) (strict example_config) = None"
    by (simp_all add: example_defs)
  have c: "\<not> is_behind (ctxt example_world)"
    by (simp add: example_defs)
  have cm: "get_commit_message (render ?timeout example_ctxt) example_ctxt Default
              = Inr (Some (''Fix bug'', Some ''Details here''))"
           "get_commit_message (render ?down example_ctxt) example_ctxt Default
              = Inr (Some (''Fix bug'', Some ''Details here''))"
    by (rule example_get_commit_message, simp_all add: example_defs)+
  have m1: "merge ?timeout example_config example_world
     = (Inl (Uncaught ''ReadTimeout''),
        \<lparr>ctxt = example_ctxt, queue = [(3, Merge), (7, Rebase)],
         calls = [Client_put 7 example_data]\<rparr>)"
    using cm(1) by (simp add: merge_def merge_method_for_def build_data_def example_defs)
  have m2: "fst (merge ?down example_config example_world) = Inl (Uncaught ''ConnectError'')"
    using cm(2)
    by (simp add: merge_def merge_method_for_def update_def build_data_def example_defs)
  have one: "run ?timeout example_config example_world []
     = (Inl (Uncaught ''ReadTimeout''),
        \<lparr>ctxt = example_ctxt, queue = [(3, Merge)],
         calls = [Client_put 7 example_data, Queue_remove_pull]\<rparr>)"
    using run_smart_removes_on_every_exit [OF a b(1) c, where missing_conditions = "[]"]
    by (simp add: m1 remove_pull_def dequeue_def example_ctxt_def)
  have two: "fst (run ?down example_config example_world []) = Inl (Uncaught ''ConnectError'')
     \<and> last (calls (snd (run ?down example_config example_world []))) = Queue_remove_pull"
    using run_smart_removes_on_every_exit [OF a b(2) c, where missing_conditions = "[]"] m2
    by blast
  show ?thesis
    using one two by simp
qed

text \<open>
  C10. With an empty list of missing conditions
  \<^verbatim>\<open>_required_statuses_in_progress\<close> is false, whatever the snapshot: the test
  \<^verbatim>\<open>if need_look_at_checks:\<close> asks for at least one status condition. So
  \<^verbatim>\<open>cancel\<close> does not wait; it returns \<^verbatim>\<open>cancelled_check_report\<close>, after
  \<^verbatim>\<open>queue.remove_pull(ctxt)\<close> when \<^verbatim>\<open>strict == "smart"\<close>, and this for every value
  of \<^verbatim>\<open>strict\<close>, in particular the true ones.
\<close>

theorem cancel_no_missing_conditions:
  "\<not> required_statuses_in_progress c []
   \<and> cancel ext cfg w []
       = (cancelled_check_report ext, if strict cfg = Smart then remove_pull w else w)"
  by (simp add: required_statuses_in_progress_def cancel_def)

theorem cancel_no_missing_conditions_witness:
  "strict_truthy (strict example_config) \<and> pull_state (ctxt example_world) = ''open''
   \<and> cancel example_collaborators example_config example_world []
       = ((Some Cancelled, ''The rule doesn't match anymore'', ''This action has been cancelled.''),
          \<lparr>ctxt = example_ctxt, queue = [(3, Merge)], calls = [Queue_remove_pull]\<rparr>)"
  using cancel_no_missing_conditions
          [where ext = example_collaborators and cfg = example_config and w = example_world]
  by (simp add: strict_truthy_def remove_pull_def dequeue_def example_defs)

end
